theory Spec2Isabelle
  imports Main
begin

section \<open>The SpookyMart API gateway (api-gateway/server.js)\<close>

text \<open>
  The gateway is an Express application: a chain of middleware and route handlers that a
  request walks through in registration order. The model keeps that order. Whatever the
  outside world decides (the clock, the outcome of a health probe, the reply of an
  upstream, the result of parsing the request body) is an input of the model, collected in
  the record \<open>world\<close> or carried by the request. Logging is not modelled: it changes
  no response and no state.
\<close>

subsection \<open>JSON values and JavaScript helpers\<close>

datatype json =
    JNull
  | JBool bool
  | JNum int
  | JStr string
  | JArr "json list"
  | JObj "(string \<times> json) list"

text \<open>
  An object literal whose property values may be \<open>undefined\<close>: \<open>res.json\<close>
  serialises with \<open>JSON.stringify\<close>, which leaves such properties out.
\<close>

fun defined_props :: "(string \<times> json option) list \<Rightarrow> (string \<times> json) list" where
  "defined_props [] = []"
| "defined_props ((k, None) # ps) = defined_props ps"
| "defined_props ((k, Some v) # ps) = (k, v) # defined_props ps"

definition stringify :: "(string \<times> json option) list \<Rightarrow> json" where
  "stringify ps = JObj (defined_props ps)"


fun get_prop :: "json \<Rightarrow> string \<Rightarrow> json option" where
  "get_prop (JObj ps) k = map_of ps k"
| "get_prop _ k = None"

text \<open>\<open>a || b\<close> on a string that may be undefined: undefined and the empty string are falsy.\<close>

definition or_default :: "string option \<Rightarrow> string \<Rightarrow> string" where
  "or_default v d = (case v of None \<Rightarrow> d | Some s \<Rightarrow> if s = [] then d else s)"

text \<open>\<open>String.prototype.startsWith\<close>.\<close>

fun starts_with :: "string \<Rightarrow> string \<Rightarrow> bool" where
  "starts_with s [] = True"
| "starts_with [] (c # cs) = False"
| "starts_with (d # ds) (c # cs) = (d = c \<and> starts_with ds cs)"

text \<open>Decimal rendering of a number inside a template string.\<close>

fun show_nat :: "nat \<Rightarrow> string" where
  "show_nat n =
     (if n < 10 then [char_of (48 + n)]
      else show_nat (n div 10) @ [char_of (48 + n mod 10)])"

declare show_nat.simps [simp del]

subsection \<open>Configuration (server.js, lines 18-25 and 95)\<close>

text \<open>
  \<open>process.env\<close>: every variable is a string or undefined. \<open>RATE_LIMIT\<close> is read
  as the number it spells; \<open>None\<close> is the variable not being set.
\<close>

record env =
  env_NODE_ENV :: "string option"
  env_PRODUCT_SERVICE_URL :: "string option"
  env_ORDER_SERVICE_URL :: "string option"
  env_RATE_LIMIT :: "nat option"

definition NODE_ENV :: "env \<Rightarrow> string" where
  "NODE_ENV e = or_default (env_NODE_ENV e) ''development''"

definition PRODUCT_SERVICE_URL :: "env \<Rightarrow> string" where
  "PRODUCT_SERVICE_URL e = or_default (env_PRODUCT_SERVICE_URL e) ''http://localhost:3001''"

definition ORDER_SERVICE_URL :: "env \<Rightarrow> string" where
  "ORDER_SERVICE_URL e = or_default (env_ORDER_SERVICE_URL e) ''http://localhost:3002''"

subsection \<open>Requests, responses, errors\<close>

text \<open>
  The methods of the gateway's interface. \<open>OPTIONS\<close> (answered by the CORS middleware)
  and \<open>HEAD\<close> are outside the model.
\<close>

datatype http_method = GET | POST | PUT | DELETE

fun method_name :: "http_method \<Rightarrow> string" where
  "method_name GET = ''GET''"
| "method_name POST = ''POST''"
| "method_name PUT = ''PUT''"
| "method_name DELETE = ''DELETE''"

text \<open>
  A JavaScript error object as the handlers read it: \<open>err.message\<close>, \<open>err.stack\<close>,
  \<open>err.status\<close> (set by the body parsers: 400 for malformed JSON, 413 for a body over
  the limit), \<open>err.code\<close> and \<open>err.errno\<close> (set by the transport).
\<close>

record js_error =
  err_message :: string
  err_stack :: "string option"
  err_status :: "nat option"
  err_code :: "string option"
  err_errno :: "int option"

text \<open>
  An inbound request after the parsing middleware (lines 82-83). \<open>bodyParse\<close> is what
  \<open>express.json\<close> and \<open>express.urlencoded\<close> made of the body: the parsed value, or
  the error they passed to \<open>next\<close>.
\<close>

record request =
  req_method :: http_method
  originalUrl :: string
  xForwardedFor :: "string list"
  remoteAddress :: string
  bodyParse :: "js_error + json"

text \<open>\<open>req.path\<close>: the URL without its query string.\<close>

definition req_path :: "request \<Rightarrow> string" where
  "req_path r = takeWhile (\<lambda>c. c \<noteq> CHR ''?'') (originalUrl r)"

text \<open>
  \<open>req.ip\<close> under \<open>app.set('trust proxy', true)\<close> (line 31): the left-most address
  of X-Forwarded-For, else the address of the connection.
\<close>

definition req_ip :: "request \<Rightarrow> string" where
  "req_ip r = (case xForwardedFor r of [] \<Rightarrow> remoteAddress r | a # _ \<Rightarrow> a)"

record http_response =
  res_status :: nat
  res_body :: json

subsection \<open>Route matching\<close>

definition strip_slash :: "string \<Rightarrow> string" where
  "strip_slash p = (if p \<noteq> [] \<and> last p = CHR ''/'' then butlast p else p)"

text \<open>
  Modelled from the spec: the dispatch of \<open>app.use(path, ...)\<close> belongs to Express, which
  is not among the repository's sources. Section 4.4: a rule matches a request by path
  prefix. The prefix ends at a segment boundary, a trailing slash of the mount path is
  optional, and paths are compared as they are spelled.
\<close>

definition mount_match :: "string \<Rightarrow> string \<Rightarrow> bool" where
  "mount_match mp p = (p = strip_slash mp \<or> starts_with p (strip_slash mp @ ''/''))"

text \<open>
  Modelled from the spec: the dispatch of \<open>app.get(path, ...)\<close> belongs to Express, which
  is not among the repository's sources. Section 6 lists the routes by their exact path; a
  trailing slash is optional.
\<close>

definition route_match :: "string \<Rightarrow> string \<Rightarrow> bool" where
  "route_match rp p = (strip_slash p = strip_slash rp)"

subsection \<open>The health prober (lines 108-127)\<close>

text \<open>
  A promise that has settled: \<open>Inl\<close> is a rejection (or a throw), \<open>Inr\<close> a value.
  \<open>try_catch\<close> is \<open>try { ... } catch (error) { ... }\<close> around an awaited body.
\<close>

definition try_catch :: "'e + 'a \<Rightarrow> ('e \<Rightarrow> 'e + 'a) \<Rightarrow> 'e + 'a" where
  "try_catch body handler = (case body of Inl e \<Rightarrow> handler e | Inr v \<Rightarrow> Inr v)"

record axios_response =
  ax_status :: nat
  ax_x_response_time :: "string option"
  ax_data :: json

text \<open>
  What can happen to one \<open>GET {baseURL}/health\<close>: an HTTP response arrives in time, the
  timeout passes first, or the connection is refused. The transport supplies the error
  object of the last two.
\<close>

datatype probe_outcome =
    Responded axios_response
  | TimedOut js_error
  | ConnRefused js_error

text \<open>
  Modelled from the spec: \<open>axios.get\<close> is a library call, not among the repository's
  sources. Section 4.1: the probe succeeds if the response arrives within the timeout and
  signals success, and fails on timeout, connection refused and non-success status.
  Success is a status from 200 to 299; a failure is a rejected promise.
\<close>

definition axios_get :: "probe_outcome \<Rightarrow> js_error + axios_response" where
  "axios_get outcome =
     (case outcome of
        Responded r \<Rightarrow>
          if 200 \<le> ax_status r \<and> ax_status r < 300 then Inr r
          else Inl \<lparr>err_message = ''Request failed with status code '' @ show_nat (ax_status r),
                    err_stack = None, err_status = None, err_code = None, err_errno = None\<rparr>
      | TimedOut e \<Rightarrow> Inl e
      | ConnRefused e \<Rightarrow> Inl e)"


datatype health = Healthy | Unhealthy

fun health_name :: "health \<Rightarrow> string" where
  "health_name Healthy = ''healthy''"
| "health_name Unhealthy = ''unhealthy''"

record HealthReport =
  hr_name :: string
  hr_status :: health
  hr_url :: string
  hr_responseTime :: "string option"
  hr_error :: "string option"
  hr_lastChecked :: string

text \<open>
  \<open>healthCheck(serviceUrl, serviceName)\<close>. \<open>now\<close> is \<open>new Date().toISOString()\<close>,
  \<open>outcome\<close> what happens to the request to \<open>serviceUrl + '/health'\<close> under the
  5000 ms timeout. The result is the settled promise of the async function.
\<close>

definition healthCheck :: "string \<Rightarrow> probe_outcome \<Rightarrow> string \<Rightarrow> string \<Rightarrow> js_error + HealthReport" where
  "healthCheck now outcome serviceUrl serviceName =
     try_catch
       (case axios_get outcome of
          Inl e \<Rightarrow> Inl e
        | Inr response \<Rightarrow>
            Inr \<lparr>hr_name = serviceName, hr_status = Healthy, hr_url = serviceUrl,
                 hr_responseTime = Some (or_default (ax_x_response_time response) ''N/A''),
                 hr_error = None, hr_lastChecked = now\<rparr>)
       (\<lambda>error.
            Inr \<lparr>hr_name = serviceName, hr_status = Unhealthy, hr_url = serviceUrl,
                 hr_responseTime = None,
                 hr_error = Some (err_message error), hr_lastChecked = now\<rparr>)"

definition json_of_report :: "HealthReport \<Rightarrow> json" where
  "json_of_report h =
     stringify
       [(''name'', Some (JStr (hr_name h))),
        (''status'', Some (JStr (health_name (hr_status h)))),
        (''url'', Some (JStr (hr_url h))),
        (''responseTime'', map_option JStr (hr_responseTime h)),
        (''error'', map_option JStr (hr_error h)),
        (''lastChecked'', Some (JStr (hr_lastChecked h)))]"

subsection \<open>The world a request meets\<close>

datatype upstream = Product | Order

record upstream_request =
  up_method :: http_method
  up_path :: string
  up_body :: json

text \<open>
  What happens to a request sent to an upstream: its response comes back, or the proxy
  raises its error event because the upstream cannot be reached or the transport timed out.
\<close>

datatype upstream_outcome =
    UpstreamResponse http_response
  | Unreachable js_error
  | UpstreamTimeout js_error

record world =
  now_ms :: int
  now_iso :: string
  uptime :: int
  probe :: "upstream \<Rightarrow> probe_outcome"
  upstream_reply :: "upstream \<Rightarrow> upstream_request \<Rightarrow> upstream_outcome"

subsection \<open>GET /health (lines 130-165)\<close>

text \<open>\<open>Promise.all\<close> of two promises: the first rejection wins, else both values.\<close>

definition promise_all2 :: "'e + 'a \<Rightarrow> 'e + 'b \<Rightarrow> 'e + ('a \<times> 'b)" where
  "promise_all2 p q =
     (case p of Inl e \<Rightarrow> Inl e
      | Inr a \<Rightarrow> (case q of Inl e \<Rightarrow> Inl e | Inr b \<Rightarrow> Inr (a, b)))"

definition health_endpoint :: "env \<Rightarrow> world \<Rightarrow> http_response" where
  "health_endpoint e w =
     (case promise_all2
             (healthCheck (now_iso w) (probe w Product) (PRODUCT_SERVICE_URL e) ''Product Service'')
             (healthCheck (now_iso w) (probe w Order) (ORDER_SERVICE_URL e) ''Order Service'') of
        Inr (productHealth, orderHealth) \<Rightarrow>
          (let overallHealth =
                 (if hr_status productHealth = Healthy \<and> hr_status orderHealth = Healthy
                  then ''healthy'' else ''degraded'');
               healthStatus = JObj
                 [(''status'', JStr overallHealth),
                  (''service'', JStr ''spookymart-api-gateway''),
                  (''version'', JStr ''1.0.0''),
                  (''timestamp'', JStr (now_iso w)),
                  (''environment'', JStr (NODE_ENV e)),
                  (''uptime'', JNum (uptime w)),
                  (''services'', JObj
                     [(''product'', json_of_report productHealth),
                      (''order'', json_of_report orderHealth)])];
               statusCode = (if overallHealth = ''healthy'' then 200 else 503)
           in \<lparr>res_status = statusCode, res_body = healthStatus\<rparr>)
      | Inl error \<Rightarrow>
          \<lparr>res_status = 503,
           res_body = JObj
             [(''status'', JStr ''unhealthy''),
              (''service'', JStr ''spookymart-api-gateway''),
              (''version'', JStr ''1.0.0''),
              (''timestamp'', JStr (now_iso w)),
              (''error'', JStr (err_message error))]\<rparr>)"

subsection \<open>The rate limiter (lines 93-105)\<close>

record RateLimitWindow =
  windowStart :: int
  count :: nat

type_synonym store = "string \<rightharpoonup> RateLimitWindow"

datatype decision = Allow | Reject

text \<open>\<open>windowMs: 15 * 60 * 1000\<close> and \<open>max: process.env.RATE_LIMIT || 100\<close>.\<close>

definition windowMs :: int where
  "windowMs = 15 * 60 * 1000"

definition rate_limit_max :: "env \<Rightarrow> nat" where
  "rate_limit_max e = (case env_RATE_LIMIT e of None \<Rightarrow> 100 | Some n \<Rightarrow> n)"

text \<open>
  Modelled from the spec: the algorithm of \<open>rateLimit({...})\<close> belongs to the
  express-rate-limit package, which is not among the repository's sources; server.js only
  configures it. Section 4.3: one window per client identity; if no window exists or the
  current one has expired (elapsed time at least the window length), start a new window
  with count 1 and allow; otherwise increment the count, and reject if it exceeds the
  ceiling, else allow.
\<close>

definition limiter :: "env \<Rightarrow> int \<Rightarrow> string \<Rightarrow> store \<Rightarrow> store \<times> decision" where
  "limiter e now client st =
     (case st client of
        None \<Rightarrow> (st(client \<mapsto> \<lparr>windowStart = now, count = 1\<rparr>), Allow)
      | Some win \<Rightarrow>
          if now - windowStart win \<ge> windowMs
          then (st(client \<mapsto> \<lparr>windowStart = now, count = 1\<rparr>), Allow)
          else (st(client \<mapsto> win\<lparr>count := count win + 1\<rparr>),
                if count win + 1 > rate_limit_max e then Reject else Allow))"

text \<open>The \<open>message\<close> option of the limiter, sent with the package's status 429.\<close>

definition rate_limit_response :: http_response where
  "rate_limit_response =
     \<lparr>res_status = 429,
      res_body = JObj
        [(''error'', JStr ''Too Many Requests''),
         (''message'', JStr ''Rate limit exceeded. Please try again later.''),
         (''retryAfter'', JStr ''15 minutes'')]\<rparr>"

subsection \<open>The proxies (lines 256-299)\<close>

text \<open>
  The options given to \<open>createProxyMiddleware\<close>. Both rewrite rules of the source are a
  caret followed by literal text, so a rule is kept as the literal prefix and its
  replacement.
\<close>

record proxy_options =
  target :: upstream
  target_url :: string
  pathRewrite :: "(string \<times> string) list"
  onError :: "js_error \<Rightarrow> request \<Rightarrow> http_response"

text \<open>
  Modelled from the spec: the rewriting of a path by the \<open>pathRewrite\<close> table belongs to
  the http-proxy-middleware package, which is not among the repository's sources. Section
  4.4: the path is rewritten per the rule. The first rule whose pattern matches replaces
  the matched prefix; a path that no rule matches is left as it is.
\<close>

fun rewritePath :: "(string \<times> string) list \<Rightarrow> string \<Rightarrow> string" where
  "rewritePath [] path = path"
| "rewritePath ((pre, value) # rules) path =
     (if starts_with path pre then value @ drop (length pre) path
      else rewritePath rules path)"

record result =
  response :: http_response
  proxied :: "(upstream \<times> upstream_request) option"

text \<open>
  Modelled from the spec: the forwarding done by \<open>createProxyMiddleware\<close> belongs to the
  http-proxy-middleware package, which is not among the repository's sources. Section
  4.4: the path of the original URL is rewritten and method and body are forwarded
  unchanged to the target; the upstream's response is relayed verbatim; if the upstream
  is unreachable or times out, the error hook answers.
\<close>

definition createProxyMiddleware :: "proxy_options \<Rightarrow> world \<Rightarrow> request \<Rightarrow> json \<Rightarrow> result" where
  "createProxyMiddleware opts w req body =
     (let proxyReq = \<lparr>up_method = req_method req,
                      up_path = rewritePath (pathRewrite opts) (originalUrl req),
                      up_body = body\<rparr>
      in \<lparr>response =
            (case upstream_reply w (target opts) proxyReq of
               UpstreamResponse proxyRes \<Rightarrow> proxyRes
             | Unreachable err \<Rightarrow> onError opts err req
             | UpstreamTimeout err \<Rightarrow> onError opts err req),
          proxied = Some (target opts, proxyReq)\<rparr>)"

definition productProxy :: "env \<Rightarrow> proxy_options" where
  "productProxy e =
     \<lparr>target = Product,
      target_url = PRODUCT_SERVICE_URL e,
      pathRewrite = [(''/api/products'', ''/api/products'')],
      onError = (\<lambda>err req.
        \<lparr>res_status = 503,
         res_body = JObj
           [(''error'', JStr ''Service Unavailable''),
            (''message'', JStr ''Product Service is currently unavailable''),
            (''service'', JStr ''product-service'')]\<rparr>)\<rparr>"

definition orderProxy :: "env \<Rightarrow> proxy_options" where
  "orderProxy e =
     \<lparr>target = Order,
      target_url = ORDER_SERVICE_URL e,
      pathRewrite = [(''/api/orders'', ''/api/orders/'')],
      onError = (\<lambda>err req.
        \<lparr>res_status = 503,
         res_body = JObj
           [(''error'', JStr ''Service Unavailable''),
            (''message'', JStr ''Order Service is currently unavailable''),
            (''service'', JStr ''order-service'')]\<rparr>)\<rparr>"

subsection \<open>The gateway's own endpoints\<close>

text \<open>\<open>GET /api/debug/connectivity\<close> (lines 168-214).\<close>

definition debug_connectivity :: "env \<Rightarrow> world \<Rightarrow> http_response" where
  "debug_connectivity e w =
     (case axios_get (probe w Order) of
        Inr orderResponse \<Rightarrow>
          \<lparr>res_status = 200,
           res_body = JObj
             [(''debug'', JStr ''connectivity-test''),
              (''timestamp'', JStr (now_iso w)),
              (''tests'', JObj
                 [(''order_service'', JObj
                     [(''url'', JStr (ORDER_SERVICE_URL e)),
                      (''status'', JStr ''success''),
                      (''response_code'', JNum (int (ax_status orderResponse))),
                      (''response_data'', ax_data orderResponse)])])]\<rparr>
      | Inl error \<Rightarrow>
          \<lparr>res_status = 503,
           res_body = JObj
             [(''debug'', JStr ''connectivity-test''),
              (''timestamp'', JStr (now_iso w)),
              (''tests'', JObj
                 [(''order_service'', stringify
                     [(''url'', Some (JStr (ORDER_SERVICE_URL e))),
                      (''status'', Some (JStr ''failed'')),
                      (''error'', Some (JStr (err_message error))),
                      (''error_code'', map_option JStr (err_code error)),
                      (''error_errno'', map_option JNum (err_errno error))])])]\<rparr>)"

text \<open>\<open>GET /\<close> (lines 217-253).\<close>

definition api_info :: "env \<Rightarrow> http_response" where
  "api_info e =
     \<lparr>res_status = 200,
      res_body = JObj
        [(''service'', JStr ''SpookyMart API Gateway''),
         (''version'', JStr ''1.0.0''),
         (''description'', JStr ''Central API Gateway for SpookyMart Halloween Ecommerce Platform''),
         (''environment'', JStr (NODE_ENV e)),
         (''endpoints'', JObj
            [(''health'', JStr ''GET /health''),
             (''products'', JObj
                [(''base'', JStr ''/api/products''),
                 (''list'', JStr ''GET /api/products''),
                 (''get'', JStr ''GET /api/products/:id''),
                 (''create'', JStr ''POST /api/products''),
                 (''update'', JStr ''PUT /api/products/:id''),
                 (''delete'', JStr ''DELETE /api/products/:id''),
                 (''categories'', JStr ''GET /api/products/categories/list'')]),
             (''orders'', JObj
                [(''base'', JStr ''/api/orders''),
                 (''list'', JStr ''GET /api/orders''),
                 (''get'', JStr ''GET /api/orders/:id''),
                 (''create'', JStr ''POST /api/orders''),
                 (''update'', JStr ''PUT /api/orders/:id''),
                 (''cancel'', JStr ''POST /api/orders/:id/cancel''),
                 (''status'', JStr ''GET /api/orders/:id/status'')])]),
         (''services'', JObj
            [(''product'', JStr (PRODUCT_SERVICE_URL e)),
             (''order'', JStr (ORDER_SERVICE_URL e))]),
         (''documentation'', JObj
            [(''product_service'', JStr (PRODUCT_SERVICE_URL e @ ''/'')),
             (''order_service'', JStr (ORDER_SERVICE_URL e @ ''/docs''))])]\<rparr>"

text \<open>The 404 handler (lines 321-334).\<close>

definition not_found :: "request \<Rightarrow> http_response" where
  "not_found req =
     \<lparr>res_status = 404,
      res_body = JObj
        [(''error'', JStr ''Not Found''),
         (''message'', JStr (''Route '' @ method_name (req_method req) @ '' '' @ originalUrl req
                              @ '' not found'')),
         (''availableEndpoints'', JArr
            [JStr ''GET /'',
             JStr ''GET /health'',
             JStr ''GET /api/products'',
             JStr ''POST /api/products'',
             JStr ''GET /api/orders'',
             JStr ''POST /api/orders''])]\<rparr>"

text \<open>
  The global error handler (lines 337-345). \<open>err.status || 500\<close>: an undefined or zero
  status is falsy.
\<close>

definition error_handler :: "env \<Rightarrow> js_error \<Rightarrow> http_response" where
  "error_handler e err =
     \<lparr>res_status = (case err_status err of None \<Rightarrow> 500 | Some n \<Rightarrow> if n = 0 then 500 else n),
      res_body = stringify
        ([(''error'', Some (JStr ''Internal Server Error'')),
          (''message'', Some (JStr (if NODE_ENV e = ''production'' then ''Something went wrong''
                                    else err_message err)))]
         @ (if NODE_ENV e \<noteq> ''production'' then [(''stack'', map_option JStr (err_stack err))]
            else []))\<rparr>"

subsection \<open>The middleware chain\<close>

text \<open>
  The handlers registered after the rate limiter, in the order of the file: the three
  \<open>app.get\<close> routes, the two proxies on their mount paths, then the 404 handler. (The
  debug middleware on /api/orders only logs and calls \<open>next\<close>.)
\<close>

definition routes :: "env \<Rightarrow> world \<Rightarrow> request \<Rightarrow> json \<Rightarrow> result" where
  "routes e w req body =
     (if req_method req = GET \<and> route_match ''/health'' (req_path req)
        then \<lparr>response = health_endpoint e w, proxied = None\<rparr>
      else if req_method req = GET \<and> route_match ''/api/debug/connectivity'' (req_path req)
        then \<lparr>response = debug_connectivity e w, proxied = None\<rparr>
      else if req_method req = GET \<and> route_match ''/'' (req_path req)
        then \<lparr>response = api_info e, proxied = None\<rparr>
      else if mount_match ''/api/products'' (req_path req)
        then createProxyMiddleware (productProxy e) w req body
      else if mount_match ''/api/orders'' (req_path req)
        then createProxyMiddleware (orderProxy e) w req body
      else \<lparr>response = not_found req, proxied = None\<rparr>)"


text \<open>
  One request through the application. A body the parsers reject goes straight to the
  error handler; a request under \<open>/api/\<close> meets the limiter, keyed by \<open>req.ip\<close>; what
  the limiter allows goes on to the routes.
\<close>

definition gateway :: "env \<Rightarrow> store \<Rightarrow> world \<Rightarrow> request \<Rightarrow> store \<times> result" where
  "gateway e st w req =
     (case bodyParse req of
        Inl err \<Rightarrow> (st, \<lparr>response = error_handler e err, proxied = None\<rparr>)
      | Inr body \<Rightarrow>
          if mount_match ''/api/'' (req_path req)
          then (case limiter e (now_ms w) (req_ip req) st of
                  (st', Reject) \<Rightarrow> (st', \<lparr>response = rate_limit_response, proxied = None\<rparr>)
                | (st', Allow) \<Rightarrow> (st', routes e w req body))
          else (st, routes e w req body))"

text \<open>A run of requests, each with the world it meets; the responses in order.\<close>

fun serve :: "env \<Rightarrow> store \<Rightarrow> (world \<times> request) list \<Rightarrow> store \<times> result list" where
  "serve e st [] = (st, [])"
| "serve e st ((w, req) # rest) =
     (case gateway e st w req of
        (st', r) \<Rightarrow> (case serve e st' rest of (st'', rs) \<Rightarrow> (st'', r # rs)))"

text \<open>The upstream gave no response: the proxy's error event fires.\<close>

fun unavailable :: "upstream_outcome \<Rightarrow> bool" where
  "unavailable (UpstreamResponse r) = False"
| "unavailable (Unreachable err) = True"
| "unavailable (UpstreamTimeout err) = True"

subsection \<open>Sample inputs\<close>

text \<open>Concrete environments, worlds and requests on which the theorems below are run.\<close>

definition sample_env :: env where
  "sample_env = \<lparr>env_NODE_ENV = None, env_PRODUCT_SERVICE_URL = None,
                  env_ORDER_SERVICE_URL = None, env_RATE_LIMIT = None\<rparr>"

definition production_env :: env where
  "production_env = \<lparr>env_NODE_ENV = Some ''production'', env_PRODUCT_SERVICE_URL = None,
                      env_ORDER_SERVICE_URL = None, env_RATE_LIMIT = None\<rparr>"

definition sample_response :: axios_response where
  "sample_response = \<lparr>ax_status = 200, ax_x_response_time = None, ax_data = JObj []\<rparr>"

definition sample_error :: js_error where
  "sample_error = \<lparr>err_message = ''connect ECONNREFUSED'', err_stack = None, err_status = None,
                    err_code = Some ''ECONNREFUSED'', err_errno = None\<rparr>"

fun all_up_probe :: "upstream \<Rightarrow> probe_outcome" where
  "all_up_probe u = Responded sample_response"

fun order_down_probe :: "upstream \<Rightarrow> probe_outcome" where
  "order_down_probe Product = Responded sample_response"
| "order_down_probe Order = ConnRefused sample_error"

fun reply_ok :: "upstream \<Rightarrow> upstream_request \<Rightarrow> upstream_outcome" where
  "reply_ok u r = UpstreamResponse \<lparr>res_status = 200, res_body = JArr []\<rparr>"

fun reply_order_down :: "upstream \<Rightarrow> upstream_request \<Rightarrow> upstream_outcome" where
  "reply_order_down Product r = UpstreamResponse \<lparr>res_status = 200, res_body = JArr []\<rparr>"
| "reply_order_down Order r = Unreachable sample_error"

definition all_up :: world where
  "all_up = \<lparr>now_ms = 1000, now_iso = ''2024-10-31T00:00:01.000Z'', uptime = 60,
              probe = all_up_probe, upstream_reply = reply_ok\<rparr>"

definition order_down :: world where
  "order_down = \<lparr>now_ms = 1000, now_iso = ''2024-10-31T00:00:01.000Z'', uptime = 60,
                  probe = order_down_probe, upstream_reply = reply_order_down\<rparr>"

definition sample_request :: "http_method \<Rightarrow> string \<Rightarrow> request" where
  "sample_request m u = \<lparr>req_method = m, originalUrl = u, xForwardedFor = [],
                          remoteAddress = ''203.0.113.7'', bodyParse = Inr (JObj [])\<rparr>"

definition tight_env :: env where
  "tight_env = \<lparr>env_NODE_ENV = None, env_PRODUCT_SERVICE_URL = None,
                 env_ORDER_SERVICE_URL = None, env_RATE_LIMIT = Some 2\<rparr>"

definition bad_json :: js_error where
  "bad_json = \<lparr>err_message = ''Unexpected end of JSON input'',
                 err_stack = Some ''SyntaxError: Unexpected end of JSON input'',
                 err_status = Some 400, err_code = None, err_errno = None\<rparr>"

definition malformed_request :: request where
  "malformed_request = \<lparr>req_method = POST, originalUrl = ''/api/orders'', xForwardedFor = [],
                          remoteAddress = ''203.0.113.7'', bodyParse = Inl bad_json\<rparr>"

definition exhausted :: store where
  "exhausted = [''203.0.113.7'' \<mapsto> \<lparr>windowStart = 1000, count = 250\<rparr>]"

definition later :: world where
  "later = all_up\<lparr>now_ms := 901000\<rparr>"

definition other_request :: request where
  "other_request = \<lparr>req_method = GET, originalUrl = ''/api/products'', xForwardedFor = [''198.51.100.9''],
                      remoteAddress = ''10.0.0.1'', bodyParse = Inr (JObj [])\<rparr>"

section \<open>Verification\<close>

subsection \<open>Evaluation on the sample inputs\<close>

lemmas gateway_eval =
  gateway_def routes_def limiter_def rate_limit_max_def windowMs_def req_path_def req_ip_def
  mount_match_def route_match_def strip_slash_def createProxyMiddleware_def productProxy_def
  orderProxy_def not_found_def error_handler_def debug_connectivity_def axios_get_def
  NODE_ENV_def ORDER_SERVICE_URL_def PRODUCT_SERVICE_URL_def or_default_def stringify_def
  rate_limit_response_def Let_def

subsection \<open>The health prober and the health endpoint\<close>

lemma axios_get_cases:
  "(\<exists>r. axios_get outcome = Inr r) \<longleftrightarrow>
   (\<exists>r. outcome = Responded r \<and> 200 \<le> ax_status r \<and> ax_status r < 300)"
  by (cases outcome) (auto simp: axios_get_def)

lemma healthCheck_ok:
  "axios_get outcome = Inr r \<Longrightarrow>
   healthCheck now outcome serviceUrl serviceName =
     Inr \<lparr>hr_name = serviceName, hr_status = Healthy, hr_url = serviceUrl,
          hr_responseTime = Some (or_default (ax_x_response_time r) ''N/A''),
          hr_error = None, hr_lastChecked = now\<rparr>"
  by (simp add: healthCheck_def try_catch_def)

lemma healthCheck_failed:
  "axios_get outcome = Inl err \<Longrightarrow>
   healthCheck now outcome serviceUrl serviceName =
     Inr \<lparr>hr_name = serviceName, hr_status = Unhealthy, hr_url = serviceUrl,
          hr_responseTime = None,
          hr_error = Some (err_message err), hr_lastChecked = now\<rparr>"
  by (simp add: healthCheck_def try_catch_def)

text \<open>
  Claim C6. For every upstream and every outcome of its probe (a response in time, a
  timeout, a refused connection, a response with a non-success status), \<open>healthCheck\<close>
  returns a HealthReport and raises nothing: the report is Healthy exactly on a response
  with a success status, and otherwise Unhealthy with the failure in its error field.
\<close>

theorem healthCheck_never_raises:
  "\<exists>h. healthCheck now outcome serviceUrl serviceName = Inr h
     \<and> hr_name h = serviceName
     \<and> (hr_status h = Healthy \<longleftrightarrow>
          (\<exists>r. outcome = Responded r \<and> 200 \<le> ax_status r \<and> ax_status r < 300))
     \<and> (hr_status h = Healthy \<longrightarrow> hr_error h = None)
     \<and> (hr_status h = Unhealthy \<longrightarrow> (\<exists>msg. hr_error h = Some msg))
     \<and> (\<forall>err. outcome = TimedOut err \<or> outcome = ConnRefused err \<longrightarrow>
           hr_status h = Unhealthy \<and> hr_error h = Some (err_message err))"
proof (cases "axios_get outcome")
  case (Inl err)
  then have "\<not> (\<exists>r. axios_get outcome = Inr r)" by simp
  then have no: "\<not> (\<exists>r. outcome = Responded r \<and> 200 \<le> ax_status r \<and> ax_status r < 300)"
    using axios_get_cases [of outcome] by blast
  have tr: "\<forall>err'. outcome = TimedOut err' \<or> outcome = ConnRefused err' \<longrightarrow> err' = err"
    using Inl by (auto simp: axios_get_def)
  show ?thesis
    using healthCheck_failed [OF Inl, of now serviceUrl serviceName] no tr by auto
next
  case (Inr r)
  then have "\<exists>r. axios_get outcome = Inr r" by blast
  then have yes: "\<exists>r. outcome = Responded r \<and> 200 \<le> ax_status r \<and> ax_status r < 300"
    using axios_get_cases [of outcome] by blast
  show ?thesis
    using healthCheck_ok [OF Inr, of now serviceUrl serviceName] yes by auto
qed

theorem healthCheck_never_raises_witness:
  "healthCheck ''2024-10-31T00:00:00.000Z''
     (TimedOut \<lparr>err_message = ''timeout of 5000ms exceeded'', err_stack = None,
                err_status = None, err_code = Some ''ECONNABORTED'', err_errno = None\<rparr>)
     ''http://localhost:3002'' ''Order Service''
   = Inr \<lparr>hr_name = ''Order Service'', hr_status = Unhealthy, hr_url = ''http://localhost:3002'',
          hr_responseTime = None, hr_error = Some ''timeout of 5000ms exceeded'',
          hr_lastChecked = ''2024-10-31T00:00:00.000Z''\<rparr>"
  using healthCheck_never_raises [of "''2024-10-31T00:00:00.000Z''"
     "TimedOut \<lparr>err_message = ''timeout of 5000ms exceeded'', err_stack = None,
                err_status = None, err_code = Some ''ECONNABORTED'', err_errno = None\<rparr>"
     "''http://localhost:3002''" "''Order Service''"]
  by (simp add: healthCheck_def try_catch_def axios_get_def)









subsection \<open>Route matching\<close>

lemma starts_with_iff: "starts_with s p \<longleftrightarrow> (\<exists>r. s = p @ r)"
  by (induction s p rule: starts_with.induct) auto

lemma strip_slash_append:
  assumes "q \<noteq> []" and "last q \<noteq> CHR ''/''"
  shows "\<exists>r'. strip_slash (q @ r) = q @ r'"
proof (cases "r = []")
  case True
  then show ?thesis using assms by (simp add: strip_slash_def)
next
  case False
  then show ?thesis by (simp add: strip_slash_def butlast_append)
qed

lemma mount_match_products_iff:
  "mount_match ''/api/products'' p \<longleftrightarrow> (p = ''/api/products'' \<or> starts_with p ''/api/products/'')"
  by (simp add: mount_match_def strip_slash_def)

lemma mount_match_orders_iff:
  "mount_match ''/api/orders'' p \<longleftrightarrow> (p = ''/api/orders'' \<or> starts_with p ''/api/orders/'')"
  by (simp add: mount_match_def strip_slash_def)

lemma mount_match_api_iff:
  "mount_match ''/api/'' p \<longleftrightarrow> (p = ''/api'' \<or> starts_with p ''/api/'')"
  by (simp add: mount_match_def strip_slash_def)

lemma under_products:
  assumes "mount_match ''/api/products'' p"
  shows "mount_match ''/api/'' p" and "\<not> route_match ''/health'' p"
    and "\<not> route_match ''/api/debug/connectivity'' p" and "\<not> route_match ''/'' p"
proof -
  obtain r where p: "p = ''/api/products'' @ r"
    using assms by (auto simp: mount_match_products_iff starts_with_iff)
  obtain r' where s: "strip_slash p = ''/api/products'' @ r'"
    unfolding p using strip_slash_append [of "''/api/products''" r] by auto
  show "mount_match ''/api/'' p" by (simp add: mount_match_api_iff p)
  show "\<not> route_match ''/health'' p" unfolding route_match_def s by (simp add: strip_slash_def)
  show "\<not> route_match ''/api/debug/connectivity'' p" unfolding route_match_def s by (simp add: strip_slash_def)
  show "\<not> route_match ''/'' p" unfolding route_match_def s by (simp add: strip_slash_def)
qed

lemma under_orders:
  assumes "mount_match ''/api/orders'' p"
  shows "mount_match ''/api/'' p" and "\<not> route_match ''/health'' p"
    and "\<not> route_match ''/api/debug/connectivity'' p" and "\<not> route_match ''/'' p"
    and "\<not> mount_match ''/api/products'' p"
proof -
  obtain r where p: "p = ''/api/orders'' @ r"
    using assms by (auto simp: mount_match_orders_iff starts_with_iff)
  obtain r' where s: "strip_slash p = ''/api/orders'' @ r'"
    unfolding p using strip_slash_append [of "''/api/orders''" r] by auto
  show "mount_match ''/api/'' p" by (simp add: mount_match_api_iff p)
  show "\<not> route_match ''/health'' p" unfolding route_match_def s by (simp add: strip_slash_def)
  show "\<not> route_match ''/api/debug/connectivity'' p" unfolding route_match_def s by (simp add: strip_slash_def)
  show "\<not> route_match ''/'' p" unfolding route_match_def s by (simp add: strip_slash_def)
  show "\<not> mount_match ''/api/products'' p" by (simp add: mount_match_products_iff p)
qed

lemma routes_products:
  "mount_match ''/api/products'' (req_path req) \<Longrightarrow>
   routes e w req body = createProxyMiddleware (productProxy e) w req body"
  by (simp add: routes_def under_products)

lemma routes_orders:
  "mount_match ''/api/orders'' (req_path req) \<Longrightarrow>
   routes e w req body = createProxyMiddleware (orderProxy e) w req body"
  by (simp add: routes_def under_orders)

lemma routes_proxied:
  assumes "proxied (routes e w req body) = Some (u, fr)"
  shows "(u = Product \<and> mount_match ''/api/products'' (req_path req)
            \<and> routes e w req body = createProxyMiddleware (productProxy e) w req body)
       \<or> (u = Order \<and> mount_match ''/api/orders'' (req_path req)
            \<and> routes e w req body = createProxyMiddleware (orderProxy e) w req body)"
proof (cases "mount_match ''/api/products'' (req_path req)")
  case True
  then show ?thesis
    using assms by (simp add: routes_products createProxyMiddleware_def productProxy_def Let_def)
next
  case np: False
  show ?thesis
  proof (cases "mount_match ''/api/orders'' (req_path req)")
    case True
    then show ?thesis
      using assms by (simp add: routes_orders createProxyMiddleware_def orderProxy_def Let_def)
  next
    case False
    then show ?thesis using assms np by (simp add: routes_def split: if_splits)
  qed
qed




subsection \<open>Through the limiter to the routes\<close>




lemma gateway_proxied:
  assumes "proxied (snd (gateway e st w req)) = Some (u, fr)"
  shows "\<exists>body. bodyParse req = Inr body \<and> snd (gateway e st w req) = routes e w req body"
proof (cases "bodyParse req")
  case (Inl err)
  then show ?thesis using assms by (simp add: gateway_def)
next
  case (Inr body)
  obtain st' d where l: "limiter e (now_ms w) (req_ip req) st = (st', d)"
    by (cases "limiter e (now_ms w) (req_ip req) st")
  show ?thesis
    using assms Inr l by (cases d) (simp_all add: gateway_def split: if_splits)
qed

subsection \<open>The proxies\<close>








text \<open>
  Claim C2. Every request the gateway hands to a proxy whose upstream is unreachable or
  times out is answered with 503 and a body of exactly the three properties error
  ("Service Unavailable"), message and service, where service is "product-service" for a
  request under /api/products and "order-service" for one under /api/orders.
\<close>

theorem proxy_error_body:
  assumes "proxied (snd (gateway e st w req)) = Some (u, proxyReq)"
    and "unavailable (upstream_reply w u proxyReq)"
  shows "res_status (response (snd (gateway e st w req))) = 503
       \<and> (\<exists>message. res_body (response (snd (gateway e st w req))) =
             JObj [(''error'', JStr ''Service Unavailable''),
                   (''message'', JStr message),
                   (''service'', JStr (case u of Product \<Rightarrow> ''product-service''
                                                | Order \<Rightarrow> ''order-service''))])
       \<and> (u = Product \<longleftrightarrow> mount_match ''/api/products'' (req_path req))
       \<and> (u = Order \<longleftrightarrow> mount_match ''/api/orders'' (req_path req))"
proof -
  obtain body where g: "snd (gateway e st w req) = routes e w req body"
    using gateway_proxied [OF assms(1)] by auto
  have p: "proxied (routes e w req body) = Some (u, proxyReq)"
    using assms(1) by (simp add: g)
  from routes_proxied [OF p] show ?thesis
  proof (elim disjE conjE)
    assume u: "u = Product" and m: "mount_match ''/api/products'' (req_path req)"
      and r: "routes e w req body = createProxyMiddleware (productProxy e) w req body"
    have no: "\<not> mount_match ''/api/orders'' (req_path req)"
      using under_orders(5) m by auto
    have fr: "proxyReq = \<lparr>up_method = req_method req,
                up_path = rewritePath [(''/api/products'', ''/api/products'')] (originalUrl req),
                up_body = body\<rparr>"
      using p by (simp add: r createProxyMiddleware_def productProxy_def Let_def)
    show ?thesis
      using assms(2) m no unfolding g r u fr
      by (cases "upstream_reply w Product \<lparr>up_method = req_method req,
                up_path = rewritePath [(''/api/products'', ''/api/products'')] (originalUrl req),
                up_body = body\<rparr>")
         (simp_all add: createProxyMiddleware_def productProxy_def Let_def)
  next
    assume u: "u = Order" and m: "mount_match ''/api/orders'' (req_path req)"
      and r: "routes e w req body = createProxyMiddleware (orderProxy e) w req body"
    have no: "\<not> mount_match ''/api/products'' (req_path req)"
      using under_orders(5) m by auto
    have fr: "proxyReq = \<lparr>up_method = req_method req,
                up_path = rewritePath [(''/api/orders'', ''/api/orders/'')] (originalUrl req),
                up_body = body\<rparr>"
      using p by (simp add: r createProxyMiddleware_def orderProxy_def Let_def)
    show ?thesis
      using assms(2) m no unfolding g r u fr
      by (cases "upstream_reply w Order \<lparr>up_method = req_method req,
                up_path = rewritePath [(''/api/orders'', ''/api/orders/'')] (originalUrl req),
                up_body = body\<rparr>")
         (simp_all add: createProxyMiddleware_def orderProxy_def Let_def)
  qed
qed

theorem proxy_error_body_witness:
  "proxied (snd (gateway sample_env Map.empty order_down (sample_request GET ''/api/orders/ord-001'')))
     = Some (Order, \<lparr>up_method = GET, up_path = ''/api/orders//ord-001'', up_body = JObj []\<rparr>)
   \<and> unavailable (upstream_reply order_down Order
         \<lparr>up_method = GET, up_path = ''/api/orders//ord-001'', up_body = JObj []\<rparr>)
   \<and> response (snd (gateway sample_env Map.empty order_down (sample_request GET ''/api/orders/ord-001'')))
     = \<lparr>res_status = 503,
        res_body = JObj [(''error'', JStr ''Service Unavailable''),
                         (''message'', JStr ''Order Service is currently unavailable''),
                         (''service'', JStr ''order-service'')]\<rparr>"
  using proxy_error_body [of sample_env Map.empty order_down "sample_request GET ''/api/orders/ord-001''"
      Order "\<lparr>up_method = GET, up_path = ''/api/orders//ord-001'', up_body = JObj []\<rparr>"]
  by (simp add: gateway_eval
      sample_env_def order_down_def sample_response_def sample_error_def sample_request_def)





subsection \<open>Unmatched paths and the error handler\<close>




text \<open>
  Claim C8 as stated fails: an error that carries a status, such as the 400 of the JSON
  body parser, is answered with that status, not with 500.
\<close>

theorem error_status_counterexample:
  "bodyParse malformed_request = Inl bad_json
   \<and> res_status (response (snd (gateway sample_env Map.empty all_up malformed_request))) = 400
   \<and> get_prop (res_body (response (snd (gateway sample_env Map.empty all_up malformed_request)))) ''error''
       = Some (JStr ''Internal Server Error'')"
  by (simp add: gateway_eval
      sample_env_def all_up_def sample_response_def bad_json_def malformed_request_def)

text \<open>
  Claim C8, amended. For every error reaching the error handler, the response has the
  error's own status if it carries a non-zero one and 500 otherwise; the body is
  {error: "Internal Server Error", message} with the message "Something went wrong" in
  production, and otherwise the error's own message together with its stack. An error of
  the body parsers reaches the handler.
\<close>

theorem error_handler_response:
  "res_status (error_handler e err) =
     (case err_status err of None \<Rightarrow> 500 | Some n \<Rightarrow> if n = 0 then 500 else n)
   \<and> (NODE_ENV e = ''production'' \<longrightarrow>
        res_body (error_handler e err) =
          JObj [(''error'', JStr ''Internal Server Error''),
                (''message'', JStr ''Something went wrong'')])
   \<and> (NODE_ENV e \<noteq> ''production'' \<longrightarrow>
        res_body (error_handler e err) =
          stringify [(''error'', Some (JStr ''Internal Server Error'')),
                     (''message'', Some (JStr (err_message err))),
                     (''stack'', map_option JStr (err_stack err))])
   \<and> (bodyParse req = Inl err \<longrightarrow>
        gateway e st w req = (st, \<lparr>response = error_handler e err, proxied = None\<rparr>))"
  by (simp add: error_handler_def gateway_def stringify_def)

theorem error_handler_response_witness:
  "NODE_ENV production_env = ''production''
   \<and> bodyParse malformed_request = Inl bad_json
   \<and> response (snd (gateway production_env Map.empty all_up malformed_request))
       = \<lparr>res_status = 400,
          res_body = JObj [(''error'', JStr ''Internal Server Error''),
                           (''message'', JStr ''Something went wrong'')]\<rparr>
   \<and> NODE_ENV sample_env \<noteq> ''production''
   \<and> res_body (error_handler sample_env sample_error)
       = JObj [(''error'', JStr ''Internal Server Error''),
               (''message'', JStr ''connect ECONNREFUSED'')]
   \<and> res_status (error_handler sample_env sample_error) = 500"
  using error_handler_response [of production_env bad_json malformed_request Map.empty all_up]
    error_handler_response [of sample_env sample_error malformed_request Map.empty all_up]
  by (simp add: gateway_eval
      sample_env_def production_env_def sample_error_def all_up_def sample_response_def
      bad_json_def malformed_request_def)

subsection \<open>The rate limiter\<close>



text \<open>
  Claim C4. Once a client's window has elapsed (the time since windowStart is at least the
  window length), the client's next request under /api starts a fresh window with count 1
  and goes on to the routes, whatever the count of the old window was.
\<close>

theorem window_reset:
  assumes "bodyParse req = Inr body"
    and "mount_match ''/api/'' (req_path req)"
    and "st (req_ip req) = Some win"
    and "now_ms w - windowStart win \<ge> windowMs"
  shows "gateway e st w req =
           (st(req_ip req \<mapsto> \<lparr>windowStart = now_ms w, count = 1\<rparr>), routes e w req body)"
  using assms by (simp add: gateway_def limiter_def)

theorem window_reset_witness:
  "bodyParse (sample_request GET ''/api/products'') = Inr (JObj [])
   \<and> mount_match ''/api/'' (req_path (sample_request GET ''/api/products''))
   \<and> exhausted (req_ip (sample_request GET ''/api/products'')) = Some \<lparr>windowStart = 1000, count = 250\<rparr>
   \<and> now_ms later - 1000 \<ge> windowMs
   \<and> fst (gateway sample_env exhausted later (sample_request GET ''/api/products'')) ''203.0.113.7''
       = Some \<lparr>windowStart = 901000, count = 1\<rparr>
   \<and> snd (gateway sample_env exhausted later (sample_request GET ''/api/products''))
       = \<lparr>response = \<lparr>res_status = 200, res_body = JArr []\<rparr>,
          proxied = Some (Product, \<lparr>up_method = GET, up_path = ''/api/products'', up_body = JObj []\<rparr>)\<rparr>"
  using window_reset [of "sample_request GET ''/api/products''" "JObj []" exhausted
      "\<lparr>windowStart = 1000, count = 250\<rparr>" later sample_env]
  by (simp add: gateway_eval
      sample_env_def sample_request_def exhausted_def later_def all_up_def sample_response_def)

lemma serve_Cons:
  "snd (serve e st ((w, r) # rest)) =
     snd (gateway e st w r) # snd (serve e (fst (gateway e st w r)) rest)"
  "fst (serve e st ((w, r) # rest)) = fst (serve e (fst (gateway e st w r)) rest)"
  by (simp_all split: prod.splits)





lemma limiter_other:
  "client \<noteq> B \<Longrightarrow> fst (limiter e now client st) B = st B"
  by (simp add: limiter_def split: option.splits)

lemma gateway_other:
  "req_ip r \<noteq> B \<Longrightarrow> fst (gateway e st w r) B = st B"
  using limiter_other [of "req_ip r" B e "now_ms w" st]
  by (cases "limiter e (now_ms w) (req_ip r) st"; cases "snd (limiter e (now_ms w) (req_ip r) st)")
     (simp_all add: gateway_def split: sum.splits)

lemma serve_other:
  "\<forall>(w, r) \<in> set reqs. req_ip r \<noteq> B \<Longrightarrow> fst (serve e st reqs) B = st B"
proof (induction reqs arbitrary: st)
  case Nil
  then show ?case by simp
next
  case (Cons x reqs)
  obtain w r where x: "x = (w, r)" by (cases x)
  have "fst (serve e (fst (gateway e st w r)) reqs) B = fst (gateway e st w r) B"
    using Cons.prems by (intro Cons.IH) simp
  also have "\<dots> = st B"
    using Cons.prems by (intro gateway_other) (simp add: x)
  finally show ?case by (simp add: x serve_Cons del: serve.simps)
qed

lemma limiter_local:
  assumes "st B = st' B"
  shows "snd (limiter e now B st) = snd (limiter e now B st')"
    and "fst (limiter e now B st) B = fst (limiter e now B st') B"
  using assms by (simp_all add: limiter_def split: option.splits)

lemma gateway_local:
  assumes "st B = st' B" and "req_ip r = B"
  shows "snd (gateway e st w r) = snd (gateway e st' w r)"
    and "fst (gateway e st w r) B = fst (gateway e st' w r) B"
proof -
  obtain s1 d1 where l1: "limiter e (now_ms w) B st = (s1, d1)"
    by (cases "limiter e (now_ms w) B st")
  obtain s2 d2 where l2: "limiter e (now_ms w) B st' = (s2, d2)"
    by (cases "limiter e (now_ms w) B st'")
  have d: "d1 = d2" and s: "s1 B = s2 B"
    using limiter_local [where st = st and st' = st' and B = B and e = e and now = "now_ms w",
        OF assms(1)]
    by (simp_all add: l1 l2)
  show "snd (gateway e st w r) = snd (gateway e st' w r)"
    by (cases d2) (simp_all add: gateway_def assms(2) l1 l2 d split: sum.splits)
  show "fst (gateway e st w r) B = fst (gateway e st' w r) B"
    by (cases d2) (simp_all add: gateway_def assms l1 l2 d s split: sum.splits)
qed

text \<open>
  Claim C9. For two distinct clients A and B, B's window and counter are unchanged by any
  sequence of requests that are not B's, and B's next request gets the same decision and
  the same response after any two such sequences: what A does, reaching its ceiling
  included, does not change what B is allowed.
\<close>

theorem clients_do_not_interfere:
  assumes "\<forall>(w, r) \<in> set xs. req_ip r \<noteq> B"
    and "\<forall>(w, r) \<in> set ys. req_ip r \<noteq> B"
    and "req_ip rB = B"
  shows "fst (serve e st xs) B = st B
       \<and> fst (serve e st xs) B = fst (serve e st ys) B
       \<and> snd (limiter e (now_ms w) B (fst (serve e st xs)))
           = snd (limiter e (now_ms w) B (fst (serve e st ys)))
       \<and> snd (gateway e (fst (serve e st xs)) w rB) = snd (gateway e (fst (serve e st ys)) w rB)
       \<and> fst (gateway e (fst (serve e st xs)) w rB) B = fst (gateway e (fst (serve e st ys)) w rB) B"
proof -
  have x: "fst (serve e st xs) B = st B" using assms(1) by (rule serve_other)
  have y: "fst (serve e st ys) B = st B" using assms(2) by (rule serve_other)
  have xy: "fst (serve e st xs) B = fst (serve e st ys) B" by (simp add: x y)
  note l = limiter_local(1) [where st = "fst (serve e st xs)" and st' = "fst (serve e st ys)"
      and B = B and e = e and now = "now_ms w", OF xy]
  note g = gateway_local [where st = "fst (serve e st xs)" and st' = "fst (serve e st ys)"
      and B = B and r = rB and e = e and w = w, OF xy assms(3)]
  show ?thesis
    using x xy l g by simp
qed

theorem clients_do_not_interfere_witness:
  "req_ip (sample_request GET ''/api/products'') \<noteq> ''198.51.100.9''
   \<and> req_ip other_request = ''198.51.100.9''
   \<and> snd (gateway tight_env
        (fst (serve tight_env Map.empty
            [(all_up, sample_request GET ''/api/products''),
             (all_up, sample_request GET ''/api/products''),
             (all_up, sample_request GET ''/api/products'')])) all_up other_request)
      = snd (gateway tight_env Map.empty all_up other_request)
   \<and> res_status (response (snd (gateway tight_env Map.empty all_up other_request))) = 200"
  using clients_do_not_interfere [of "[(all_up, sample_request GET ''/api/products''),
             (all_up, sample_request GET ''/api/products''),
             (all_up, sample_request GET ''/api/products'')]" "''198.51.100.9''" "[]"
      other_request tight_env Map.empty all_up]
  by (simp add: gateway_eval
      all_up_def sample_response_def sample_request_def tight_env_def other_request_def)

end
